theory Spec2Isabelle
  imports Main "HOL-Library.Sublist"
begin

section \<open>Python strings\<close>

text \<open>
  A Python \<^verbatim>\<open>str\<close> is a sequence of Unicode code points, so it is modelled as a list of
  naturals. An ASCII literal of the source is written \<open>str ''...''\<close>; the two non-ASCII
  characters of \<^verbatim>\<open>services/firewall.py\<close> (U+2705 and U+274C, the check mark and the
  cross mark opening the success and failure messages) are written as code points.
\<close>

type_synonym pystr = "nat list"

definition str :: "string \<Rightarrow> pystr" where
  "str s = map of_char s"

text \<open>
  \<^verbatim>\<open>str.strip()\<close> with no argument removes leading and trailing whitespace, where
  whitespace is what CPython's \<^verbatim>\<open>Py_UNICODE_ISSPACE\<close> accepts.
\<close>

definition isspace :: "nat \<Rightarrow> bool" where
  "isspace c =
     ((0x09 \<le> c \<and> c \<le> 0x0D) \<or> (0x1C \<le> c \<and> c \<le> 0x20) \<or> c = 0x85 \<or> c = 0xA0 \<or>
      c = 0x1680 \<or> (0x2000 \<le> c \<and> c \<le> 0x200A) \<or> c = 0x2028 \<or> c = 0x2029 \<or>
      c = 0x202F \<or> c = 0x205F \<or> c = 0x3000)"

definition strip :: "pystr \<Rightarrow> pystr" where
  "strip s = rev (dropWhile isspace (rev (dropWhile isspace s)))"

text \<open>
  \<^verbatim>\<open>str.lower()\<close> is only ever applied to the value of \<^verbatim>\<open>platform.system()\<close> and
  the result compared with the ASCII literal \<^verbatim>\<open>"windows"\<close>. The model folds the letters
  A to Z and leaves every other code point as it is. No code point outside ASCII
  lowercases to one of the letters of \<^verbatim>\<open>"windows"\<close>, so the comparison has the same
  outcome as with the full Unicode case mapping.
\<close>

definition lower_cp :: "nat \<Rightarrow> nat" where
  "lower_cp c = (if 0x41 \<le> c \<and> c \<le> 0x5A then c + 0x20 else c)"

definition lower :: "pystr \<Rightarrow> pystr" where
  "lower s = map lower_cp s"

text \<open>Python's \<^verbatim>\<open>a or b\<close> on two strings: \<open>a\<close> unless it is empty.\<close>

definition py_or :: "pystr \<Rightarrow> pystr \<Rightarrow> pystr" where
  "py_or a b = (if a = [] then b else a)"

section \<open>Data model\<close>

record FirewallResult =
  ok :: bool
  message :: pystr
  command :: "pystr option"

text \<open>The fields of \<^verbatim>\<open>subprocess.CompletedProcess\<close> that the controller reads.\<close>

record CompletedProcess =
  returncode :: int
  stdout :: pystr
  stderr :: pystr

text \<open>
  The exceptions the two foreign calls can raise: \<^verbatim>\<open>subprocess.run\<close> fails with an
  \<^verbatim>\<open>OSError\<close> (or one of its subclasses) when the process cannot be spawned and with
  \<^verbatim>\<open>UnicodeDecodeError\<close> when the captured output does not decode, which happens after
  the process has run, and with \<^verbatim>\<open>ValueError\<close> when an argument holds a NUL character;
  \<^verbatim>\<open>ctypes.windll\<close> does not exist off Windows (\<^verbatim>\<open>AttributeError\<close>).
\<close>

datatype py_exception =
  FileNotFoundError | PermissionError | OSError | UnicodeDecodeError | ValueError |
  AttributeError

text \<open>
  The host the module runs on, as far as the module observes it: the value of
  \<^verbatim>\<open>platform.system()\<close>, the outcome of
  \<^verbatim>\<open>ctypes.windll.shell32.IsUserAnAdmin()\<close>, and the outcome of
  \<^verbatim>\<open>subprocess.run(argv, capture_output=True, text=True)\<close> for each argument vector.
  \<^verbatim>\<open>subprocess.run\<close> either returns a \<^verbatim>\<open>CompletedProcess\<close> or raises; a subprocess
  that never exits is outside the model.
\<close>

record host =
  platform_system :: pystr
  IsUserAnAdmin :: "py_exception + int"
  subprocess_run :: "pystr list \<Rightarrow> py_exception + CompletedProcess"

text \<open>
  A call returns its value or the exception that escapes it, together with the argument
  vectors of the subprocesses it spawned, in order.
\<close>

type_synonym 'a outcome = "(py_exception + 'a) \<times> pystr list list"

section \<open>services/firewall.py\<close>

text \<open>
  The source names \<^verbatim>\<open>_is_windows_admin\<close> and \<^verbatim>\<open>_run_powershell\<close> lose their leading
  underscore. \<^verbatim>\<open>_is_windows_admin\<close> catches every \<^verbatim>\<open>Exception\<close> and answers
  \<^verbatim>\<open>False\<close>. \<open>powershell_argv\<close> is the argument list that \<^verbatim>\<open>_run_powershell\<close>
  passes to \<^verbatim>\<open>subprocess.run\<close>; \<^verbatim>\<open>_run_powershell\<close> has no handler, so an exception
  of \<^verbatim>\<open>subprocess.run\<close> is its outcome.
\<close>

definition is_windows_admin :: "host \<Rightarrow> bool" where
  "is_windows_admin h = (case IsUserAnAdmin h of Inl e \<Rightarrow> False | Inr v \<Rightarrow> v \<noteq> 0)"

definition powershell_argv :: "pystr \<Rightarrow> pystr list" where
  "powershell_argv ps_command =
     [str ''powershell'', str ''-NoProfile'', str ''-ExecutionPolicy'', str ''Bypass'',
      str ''-Command'', ps_command]"

definition run_powershell :: "host \<Rightarrow> pystr \<Rightarrow> CompletedProcess outcome" where
  "run_powershell h ps_command =
     (subprocess_run h (powershell_argv ps_command), [powershell_argv ps_command])"

definition block_ip :: "host \<Rightarrow> pystr \<Rightarrow> bool \<Rightarrow> bool \<Rightarrow> pystr \<Rightarrow> FirewallResult outcome" where
  \<open>block_ip h ip allow_real dry_run backend =
     (let cmd = str ''New-NetFirewallRule -DisplayName "IDS_Block_'' @ ip @
                str ''" -Direction Inbound -Action Block -RemoteAddress '' @ ip @
                str '' -Profile Any''
      in
      if dry_run \<or> \<not> allow_real then
        (Inr \<lparr>ok = True,
              message = str ''(Dry-run) Block command prepared. Enable REAL blocking + run Streamlit/VS Code as Admin to apply.'',
              command = Some cmd\<rparr>, [])
      else if lower (platform_system h) = str ''windows'' then
        if \<not> is_windows_admin h then
          (Inr \<lparr>ok = False,
                message = str ''Access denied. Run VS Code / PowerShell / Streamlit as **Administrator**, then try again.'',
                command = Some cmd\<rparr>, [])
        else
          (case run_powershell h cmd of
             (Inl e, spawned) \<Rightarrow> (Inl e, spawned)
           | (Inr proc, spawned) \<Rightarrow>
               if returncode proc = 0 then
                 (Inr \<lparr>ok = True,
                       message = [0x2705] @ str '' Blocked '' @ ip @
                                 str '' (Windows Firewall rule added).'',
                       command = Some cmd\<rparr>, spawned)
               else
                 (let err = py_or (strip (stderr proc)) (strip (stdout proc))
                  in (Inr \<lparr>ok = False,
                            message = [0x274C] @ str '' Block failed: '' @ err,
                            command = Some cmd\<rparr>, spawned)))
      else
        (Inr \<lparr>ok = False,
              message = str ''Firewall backend not supported on this OS.'',
              command = Some cmd\<rparr>, []))\<close>

definition unblock_ip :: "host \<Rightarrow> pystr \<Rightarrow> bool \<Rightarrow> bool \<Rightarrow> pystr \<Rightarrow> FirewallResult outcome" where
  \<open>unblock_ip h ip allow_real dry_run backend =
     (let cmd = str ''Get-NetFirewallRule -DisplayName "IDS_Block_'' @ ip @
                str ''" -ErrorAction SilentlyContinue | '' @
                str ''Remove-NetFirewallRule -ErrorAction SilentlyContinue''
      in
      if dry_run \<or> \<not> allow_real then
        (Inr \<lparr>ok = True,
              message = str ''(Dry-run) Unblock command prepared. Enable REAL blocking + run as Admin to apply.'',
              command = Some cmd\<rparr>, [])
      else if lower (platform_system h) = str ''windows'' then
        if \<not> is_windows_admin h then
          (Inr \<lparr>ok = False,
                message = str ''Access denied. Run VS Code / PowerShell / Streamlit as **Administrator**, then try again.'',
                command = Some cmd\<rparr>, [])
        else
          (case run_powershell h cmd of
             (Inl e, spawned) \<Rightarrow> (Inl e, spawned)
           | (Inr proc, spawned) \<Rightarrow>
               if returncode proc = 0 then
                 (Inr \<lparr>ok = True,
                       message = [0x2705] @ str '' Unblock attempted for '' @ ip @
                                 str ''. (If rule existed, it was removed.)'',
                       command = Some cmd\<rparr>, spawned)
               else
                 (let err = py_or (strip (stderr proc)) (strip (stdout proc))
                  in (Inr \<lparr>ok = False,
                            message = [0x274C] @ str '' Unblock failed: '' @ err,
                            command = Some cmd\<rparr>, spawned)))
      else
        (Inr \<lparr>ok = False,
              message = str ''Firewall backend not supported on this OS.'',
              command = Some cmd\<rparr>, []))\<close>

definition list_ids_rules :: "host \<Rightarrow> FirewallResult outcome" where
  \<open>list_ids_rules h =
     (if lower (platform_system h) \<noteq> str ''windows'' then
        (Inr \<lparr>ok = False,
              message = str ''Rule listing supported only on Windows.'',
              command = None\<rparr>, [])
      else
        (let cmd = str ''Get-NetFirewallRule | '' @
                   str ''Where-Object {$_.DisplayName -like "IDS_Block_*"} | '' @
                   str ''Select DisplayName,Enabled,Direction,Action | Format-Table -AutoSize''
         in
         case run_powershell h cmd of
           (Inl e, spawned) \<Rightarrow> (Inl e, spawned)
         | (Inr proc, spawned) \<Rightarrow>
             if returncode proc = 0 then
               (let out = strip (stdout proc)
                in (Inr \<lparr>ok = True,
                          message = py_or out (str ''(No IDS rules found)''),
                          command = Some cmd\<rparr>, spawned))
             else
               (Inr \<lparr>ok = False,
                     message = py_or (strip (stderr proc)) (strip (stdout proc)),
                     command = Some cmd\<rparr>, spawned)))\<close>

section \<open>Concrete hosts\<close>

text \<open>
  Three hosts on which the theorems below are instantiated: a Linux machine, where
  \<^verbatim>\<open>ctypes.windll\<close> is missing and no \<^verbatim>\<open>powershell\<close> is on the path; a Windows machine
  with an unelevated process; and a Windows machine with an elevated process, whose
  shell has the given outcome on every command.
\<close>

definition linux_host :: host where
  "linux_host =
     \<lparr>platform_system = str ''Linux'', IsUserAnAdmin = Inl AttributeError,
      subprocess_run = (\<lambda>argv. Inl FileNotFoundError)\<rparr>"

definition windows_user_host :: host where
  "windows_user_host =
     \<lparr>platform_system = str ''Windows'', IsUserAnAdmin = Inr 0,
      subprocess_run = (\<lambda>argv. Inr \<lparr>returncode = 0, stdout = [], stderr = []\<rparr>)\<rparr>"

definition windows_admin_host :: "py_exception + CompletedProcess \<Rightarrow> host" where
  "windows_admin_host shell =
     \<lparr>platform_system = str ''Windows'', IsUserAnAdmin = Inr 1,
      subprocess_run = (\<lambda>argv. shell)\<rparr>"

section \<open>Facts about the string model and the concrete hosts\<close>

lemma lower_Linux: "lower (str ''Linux'') \<noteq> str ''windows''"
  by (simp add: lower_def lower_cp_def str_def)

lemma lower_Windows: "lower (str ''Windows'') = str ''windows''"
  by (simp add: lower_def lower_cp_def str_def)

lemma windows_admin_host_simps:
  "lower (platform_system (windows_admin_host shell)) = str ''windows''"
  "is_windows_admin (windows_admin_host shell)"
  "subprocess_run (windows_admin_host shell) argv = shell"
  by (simp_all add: windows_admin_host_def is_windows_admin_def lower_Windows)

lemma windows_user_host_simps:
  "lower (platform_system windows_user_host) = str ''windows''"
  "\<not> is_windows_admin windows_user_host"
  by (simp_all add: windows_user_host_def is_windows_admin_def lower_Windows)

lemma linux_host_simps:
  "lower (platform_system linux_host) \<noteq> str ''windows''"
  "\<not> is_windows_admin linux_host"
  "subprocess_run linux_host argv = Inl FileNotFoundError"
  by (simp_all add: linux_host_def is_windows_admin_def lower_Linux)

text \<open>The two commands for the address 203.0.113.5, as single literals.\<close>

lemma block_command_203:
  \<open>str ''New-NetFirewallRule -DisplayName "IDS_Block_'' @ str ''203.0.113.5'' @
   str ''" -Direction Inbound -Action Block -RemoteAddress '' @ str ''203.0.113.5'' @
   str '' -Profile Any'' =
   str ''New-NetFirewallRule -DisplayName "IDS_Block_203.0.113.5" -Direction Inbound -Action Block -RemoteAddress 203.0.113.5 -Profile Any''\<close>
  by (simp add: str_def)

lemma unblock_command_203:
  \<open>str ''Get-NetFirewallRule -DisplayName "IDS_Block_'' @ str ''203.0.113.5'' @
   str ''" -ErrorAction SilentlyContinue | '' @
   str ''Remove-NetFirewallRule -ErrorAction SilentlyContinue'' =
   str ''Get-NetFirewallRule -DisplayName "IDS_Block_203.0.113.5" -ErrorAction SilentlyContinue | Remove-NetFirewallRule -ErrorAction SilentlyContinue''\<close>
  by (simp add: str_def)

text \<open>
  The source writes the unblock and the list command as adjacent literals; joined they
  are the commands of the host command surface.
\<close>

lemma unblock_literal_joined:
  \<open>str ''" -ErrorAction SilentlyContinue | '' @
   str ''Remove-NetFirewallRule -ErrorAction SilentlyContinue'' =
   str ''" -ErrorAction SilentlyContinue | Remove-NetFirewallRule -ErrorAction SilentlyContinue''\<close>
  by (simp add: str_def)

lemma list_literal_joined:
  \<open>str ''Get-NetFirewallRule | '' @
   str ''Where-Object {$_.DisplayName -like "IDS_Block_*"} | '' @
   str ''Select DisplayName,Enabled,Direction,Action | Format-Table -AutoSize'' =
   str ''Get-NetFirewallRule | Where-Object {$_.DisplayName -like "IDS_Block_*"} | Select DisplayName,Enabled,Direction,Action | Format-Table -AutoSize''\<close>
  by (simp add: str_def)

lemma strip_trailing_newline:
  "strip (str ''RuleAlreadyExists'' @ [0x0A]) = str ''RuleAlreadyExists''"
  by (simp add: strip_def isspace_def str_def)

lemma RuleAlreadyExists_not_empty: "str ''RuleAlreadyExists'' \<noteq> []"
  by (simp add: str_def)

text \<open>Key substrings of the fixed messages, and the rule name inside the block command.\<close>

lemma dry_run_block_message:
  "sublist (str ''Dry-run'')
     (str ''(Dry-run) Block command prepared. Enable REAL blocking + run Streamlit/VS Code as Admin to apply.'')"
  by (simp add: str_def sublist_code prefix_code)

lemma access_denied_message:
  "sublist (str ''Access denied'')
     (str ''Access denied. Run VS Code / PowerShell / Streamlit as **Administrator**, then try again.'')"
  by (simp add: str_def sublist_code prefix_code)

lemma not_supported_message:
  "sublist (str ''not supported'') (str ''Firewall backend not supported on this OS.'')"
  by (simp add: str_def sublist_code prefix_code)

lemma rule_name_in_block_command:
  \<open>sublist (str ''IDS_Block_'' @ ip)
     (str ''New-NetFirewallRule -DisplayName "IDS_Block_'' @ ip @ rest)\<close>
proof -
  have \<open>str ''New-NetFirewallRule -DisplayName "IDS_Block_'' @ ip @ rest =
        str ''New-NetFirewallRule -DisplayName "'' @ (str ''IDS_Block_'' @ ip) @ rest\<close>
    by (simp add: str_def)
  then show ?thesis
    by (simp only: sublist_appendI)
qed

lemma sublist_after_prefix: "sublist e (c # pre @ e)"
  by (metis append_Cons append_Nil2 sublist_appendI)

section \<open>Execution modes\<close>

text \<open>
  C2. For every string \<open>ip\<close> and every value of \<open>allow_real\<close>, \<^verbatim>\<open>block_ip\<close> with
  \<open>dry_run = True\<close> returns a result with \<open>ok = True\<close>, a message containing
  \<^verbatim>\<open>Dry-run\<close> and a command containing the rule name \<^verbatim>\<open>IDS_Block_<ip>\<close>, and spawns
  no subprocess.
\<close>

theorem block_dry_run:
  "\<exists>r. block_ip h ip allow_real True backend = (Inr r, []) \<and> ok r \<and>
       sublist (str ''Dry-run'') (message r) \<and>
       (\<exists>c. command r = Some c \<and> sublist (str ''IDS_Block_'' @ ip) c)"
  by (simp add: block_ip_def dry_run_block_message rule_name_in_block_command)

theorem block_dry_run_witness:
  \<open>block_ip linux_host (str ''203.0.113.5'') False True (str ''auto'') =
     (Inr \<lparr>ok = True,
           message = str ''(Dry-run) Block command prepared. Enable REAL blocking + run Streamlit/VS Code as Admin to apply.'',
           command = Some (str ''New-NetFirewallRule -DisplayName "IDS_Block_203.0.113.5" -Direction Inbound -Action Block -RemoteAddress 203.0.113.5 -Profile Any'')\<rparr>,
      []) \<and>
   sublist (str ''IDS_Block_203.0.113.5'')
     (str ''New-NetFirewallRule -DisplayName "IDS_Block_203.0.113.5" -Direction Inbound -Action Block -RemoteAddress 203.0.113.5 -Profile Any'')\<close>
  using block_dry_run [of linux_host "str ''203.0.113.5''" False "str ''auto''"]
  by (simp add: block_ip_def str_def)

text \<open>
  C4. For every \<open>ip\<close>, \<^verbatim>\<open>block_ip\<close> and \<^verbatim>\<open>unblock_ip\<close> called with
  \<open>allow_real = False\<close> and \<open>dry_run = False\<close> have the same outcome as called with
  \<open>dry_run = True\<close> (whatever \<open>allow_real\<close> is there): with real blocking disabled the
  effective mode is dry-run.
\<close>

theorem disabled_real_is_dry_run:
  "block_ip h ip False False backend = block_ip h ip allow_real True backend \<and>
   unblock_ip h ip False False backend = unblock_ip h ip allow_real True backend"
  by (simp add: block_ip_def unblock_ip_def)

theorem disabled_real_is_dry_run_witness:
  "block_ip (windows_admin_host (Inl FileNotFoundError)) (str ''203.0.113.5'') False False (str ''auto'') =
   block_ip (windows_admin_host (Inl FileNotFoundError)) (str ''203.0.113.5'') True True (str ''auto'') \<and>
   unblock_ip (windows_admin_host (Inl FileNotFoundError)) (str ''203.0.113.5'') False False (str ''auto'') =
   unblock_ip (windows_admin_host (Inl FileNotFoundError)) (str ''203.0.113.5'') True True (str ''auto'')"
  by (rule disabled_real_is_dry_run)

section \<open>The command field\<close>



text \<open>
  C6. For every \<open>ip\<close> and every combination of \<open>allow_real\<close> and \<open>dry_run\<close>, every
  result returned by \<^verbatim>\<open>block_ip\<close> or \<^verbatim>\<open>unblock_ip\<close> has a command; a result of
  \<^verbatim>\<open>list_ids_rules\<close> has no command exactly when the platform is not the supported
  one, so the rejection by \<^verbatim>\<open>list_ids_rules\<close> is the only result without a command.
\<close>

theorem command_populated:
  "(\<forall>r. fst (block_ip h ip allow_real dry_run backend) = Inr r \<longrightarrow> command r \<noteq> None) \<and>
   (\<forall>r. fst (unblock_ip h ip allow_real dry_run backend) = Inr r \<longrightarrow> command r \<noteq> None) \<and>
   (\<forall>r. fst (list_ids_rules h) = Inr r \<longrightarrow>
      (command r = None) = (lower (platform_system h) \<noteq> str ''windows''))"
  by (auto simp add: block_ip_def unblock_ip_def list_ids_rules_def run_powershell_def Let_def
      split: sum.splits if_splits)

theorem command_populated_witness:
  \<open>fst (block_ip linux_host (str ''203.0.113.5'') True False (str ''auto'')) =
     Inr \<lparr>ok = False,
          message = str ''Firewall backend not supported on this OS.'',
          command = Some (str ''New-NetFirewallRule -DisplayName "IDS_Block_203.0.113.5" -Direction Inbound -Action Block -RemoteAddress 203.0.113.5 -Profile Any'')\<rparr> \<and>
   fst (unblock_ip windows_user_host (str ''203.0.113.5'') True False (str ''auto'')) =
     Inr \<lparr>ok = False,
          message = str ''Access denied. Run VS Code / PowerShell / Streamlit as **Administrator**, then try again.'',
          command = Some (str ''Get-NetFirewallRule -DisplayName "IDS_Block_203.0.113.5" -ErrorAction SilentlyContinue | Remove-NetFirewallRule -ErrorAction SilentlyContinue'')\<rparr> \<and>
   fst (list_ids_rules linux_host) =
     Inr \<lparr>ok = False, message = str ''Rule listing supported only on Windows.'', command = None\<rparr>\<close>
  using command_populated [of linux_host "str ''203.0.113.5''" True False "str ''auto''"]
    command_populated [of windows_user_host "str ''203.0.113.5''" True False "str ''auto''"]
  by (simp add: Let_def block_ip_def unblock_ip_def list_ids_rules_def linux_host_simps(1)
      windows_user_host_simps block_command_203 unblock_command_203)

section \<open>The gates of REAL mode\<close>

text \<open>
  C3. For every \<open>ip\<close>, on the supported platform (\<^verbatim>\<open>platform.system().lower()\<close> is
  \<^verbatim>\<open>windows\<close>) in REAL mode (\<open>allow_real = True\<close>, \<open>dry_run = False\<close>) with an
  unprivileged process, \<^verbatim>\<open>block_ip\<close> and \<^verbatim>\<open>unblock_ip\<close> return \<open>ok = False\<close> with a
  message containing \<^verbatim>\<open>Access denied\<close> and with a command, and spawn no subprocess.
\<close>

theorem privilege_gate:
  assumes "lower (platform_system h) = str ''windows''"
    and "\<not> is_windows_admin h"
  shows "(\<exists>r. block_ip h ip True False backend = (Inr r, []) \<and> \<not> ok r \<and>
            sublist (str ''Access denied'') (message r) \<and> command r \<noteq> None) \<and>
         (\<exists>r. unblock_ip h ip True False backend = (Inr r, []) \<and> \<not> ok r \<and>
            sublist (str ''Access denied'') (message r) \<and> command r \<noteq> None)"
  using assms by (simp add: block_ip_def unblock_ip_def access_denied_message)

theorem privilege_gate_witness:
  \<open>lower (platform_system windows_user_host) = str ''windows'' \<and>
   \<not> is_windows_admin windows_user_host \<and>
   block_ip windows_user_host (str ''203.0.113.5'') True False (str ''auto'') =
     (Inr \<lparr>ok = False,
           message = str ''Access denied. Run VS Code / PowerShell / Streamlit as **Administrator**, then try again.'',
           command = Some (str ''New-NetFirewallRule -DisplayName "IDS_Block_203.0.113.5" -Direction Inbound -Action Block -RemoteAddress 203.0.113.5 -Profile Any'')\<rparr>,
      []) \<and>
   unblock_ip windows_user_host (str ''203.0.113.5'') True False (str ''auto'') =
     (Inr \<lparr>ok = False,
           message = str ''Access denied. Run VS Code / PowerShell / Streamlit as **Administrator**, then try again.'',
           command = Some (str ''Get-NetFirewallRule -DisplayName "IDS_Block_203.0.113.5" -ErrorAction SilentlyContinue | Remove-NetFirewallRule -ErrorAction SilentlyContinue'')\<rparr>,
      [])\<close>
  using privilege_gate [OF windows_user_host_simps, of "str ''203.0.113.5''" "str ''auto''"]
  by (simp add: Let_def block_ip_def unblock_ip_def windows_user_host_simps block_command_203
      unblock_command_203)

text \<open>
  C5. For every \<open>ip\<close>, in REAL mode on a platform other than the supported one,
  \<^verbatim>\<open>block_ip\<close> and \<^verbatim>\<open>unblock_ip\<close> return \<open>ok = False\<close> with a message saying that the
  backend is not supported and with a command, and spawn no subprocess.
\<close>

theorem platform_gate:
  assumes "lower (platform_system h) \<noteq> str ''windows''"
  shows "(\<exists>r. block_ip h ip True False backend = (Inr r, []) \<and> \<not> ok r \<and>
            sublist (str ''not supported'') (message r) \<and> command r \<noteq> None) \<and>
         (\<exists>r. unblock_ip h ip True False backend = (Inr r, []) \<and> \<not> ok r \<and>
            sublist (str ''not supported'') (message r) \<and> command r \<noteq> None)"
  using assms by (simp add: block_ip_def unblock_ip_def not_supported_message)

theorem platform_gate_witness:
  \<open>lower (platform_system linux_host) \<noteq> str ''windows'' \<and>
   block_ip linux_host (str ''203.0.113.5'') True False (str ''auto'') =
     (Inr \<lparr>ok = False,
           message = str ''Firewall backend not supported on this OS.'',
           command = Some (str ''New-NetFirewallRule -DisplayName "IDS_Block_203.0.113.5" -Direction Inbound -Action Block -RemoteAddress 203.0.113.5 -Profile Any'')\<rparr>,
      []) \<and>
   unblock_ip linux_host (str ''203.0.113.5'') True False (str ''auto'') =
     (Inr \<lparr>ok = False,
           message = str ''Firewall backend not supported on this OS.'',
           command = Some (str ''Get-NetFirewallRule -DisplayName "IDS_Block_203.0.113.5" -ErrorAction SilentlyContinue | Remove-NetFirewallRule -ErrorAction SilentlyContinue'')\<rparr>,
      [])\<close>
  using platform_gate [OF linux_host_simps(1), of "str ''203.0.113.5''" "str ''auto''"]
  by (simp add: Let_def block_ip_def unblock_ip_def linux_host_simps(1) block_command_203
      unblock_command_203)

section \<open>Outcomes of the execution\<close>

text \<open>
  What the controller decides about an unblock that reaches the shell. The command is the
  pipeline that looks the rule \<^verbatim>\<open>IDS_Block_<ip>\<close> up and removes what was found, both
  stages with \<^verbatim>\<open>-ErrorAction SilentlyContinue\<close>. Exactly one subprocess is spawned, and
  \<open>ok\<close> is decided by its exit code alone: the controller holds no rule store and
  never asks whether the rule existed. Which exit code the shell gives the suppressed
  pipeline on a host without the rule is a fact about the shell, not about this module.
\<close>

lemma unblock_ok_iff_exit_zero:
  assumes "lower (platform_system h) = str ''windows''"
    and "is_windows_admin h"
    and \<open>subprocess_run h (powershell_argv (str ''Get-NetFirewallRule -DisplayName "IDS_Block_'' @ ip @ str ''" -ErrorAction SilentlyContinue | Remove-NetFirewallRule -ErrorAction SilentlyContinue'')) = Inr proc\<close>
  shows \<open>\<exists>r. unblock_ip h ip True False backend =
          (Inr r, [powershell_argv (str ''Get-NetFirewallRule -DisplayName "IDS_Block_'' @ ip @ str ''" -ErrorAction SilentlyContinue | Remove-NetFirewallRule -ErrorAction SilentlyContinue'')]) \<and>
        ok r = (returncode proc = 0)\<close>
  using assms by (simp add: unblock_ip_def run_powershell_def Let_def unblock_literal_joined)

text \<open>With exit code 0 the result is the fixed success message, whatever the shell printed.\<close>

lemma unblock_exit_zero:
  assumes "lower (platform_system h) = str ''windows''"
    and "is_windows_admin h"
    and \<open>subprocess_run h (powershell_argv (str ''Get-NetFirewallRule -DisplayName "IDS_Block_'' @ ip @ str ''" -ErrorAction SilentlyContinue | Remove-NetFirewallRule -ErrorAction SilentlyContinue'')) = Inr proc\<close>
    and "returncode proc = 0"
  shows \<open>unblock_ip h ip True False backend =
     (Inr \<lparr>ok = True,
           message = [0x2705] @ str '' Unblock attempted for '' @ ip @ str ''. (If rule existed, it was removed.)'',
           command = Some (str ''Get-NetFirewallRule -DisplayName "IDS_Block_'' @ ip @ str ''" -ErrorAction SilentlyContinue | Remove-NetFirewallRule -ErrorAction SilentlyContinue'')\<rparr>,
      [powershell_argv (str ''Get-NetFirewallRule -DisplayName "IDS_Block_'' @ ip @ str ''" -ErrorAction SilentlyContinue | Remove-NetFirewallRule -ErrorAction SilentlyContinue'')])\<close>
  using assms by (simp add: unblock_ip_def run_powershell_def Let_def unblock_literal_joined)

lemma unblock_exit_zero_witness:
  \<open>unblock_ip
     (windows_admin_host (Inr \<lparr>returncode = 0, stdout = [], stderr = str ''No MSFT_NetFirewallRule objects found''\<rparr>))
     (str ''203.0.113.5'') True False (str ''auto'') =
     (Inr \<lparr>ok = True,
           message = [0x2705] @ str '' Unblock attempted for 203.0.113.5. (If rule existed, it was removed.)'',
           command = Some (str ''Get-NetFirewallRule -DisplayName "IDS_Block_203.0.113.5" -ErrorAction SilentlyContinue | Remove-NetFirewallRule -ErrorAction SilentlyContinue'')\<rparr>,
      [[str ''powershell'', str ''-NoProfile'', str ''-ExecutionPolicy'', str ''Bypass'', str ''-Command'',
        str ''Get-NetFirewallRule -DisplayName "IDS_Block_203.0.113.5" -ErrorAction SilentlyContinue | Remove-NetFirewallRule -ErrorAction SilentlyContinue'']])\<close>
proof -
  let ?proc = "\<lparr>returncode = 0, stdout = [], stderr = str ''No MSFT_NetFirewallRule objects found''\<rparr>"
  have "returncode ?proc = 0"
    by simp
  from unblock_exit_zero [OF windows_admin_host_simps(1) windows_admin_host_simps(2)
      windows_admin_host_simps(3) this, of "str ''203.0.113.5''" "str ''auto''"]
  show ?thesis
    by (simp add: powershell_argv_def str_def)
qed

text \<open>
  C9, as the code has it. In REAL mode on the supported platform with privilege, when the
  subprocess exits with a non-zero code, \<^verbatim>\<open>block_ip\<close> and \<^verbatim>\<open>unblock_ip\<close> return
  \<open>ok = False\<close> with a message that contains the captured stderr with its leading and
  trailing whitespace stripped, or the stripped stdout when the stripped stderr is empty.
  The message need not contain the stderr as it was captured: the counterexample has a
  stderr that ends in a newline.
\<close>

theorem execution_failure_message:
  assumes "lower (platform_system h) = str ''windows''"
    and "is_windows_admin h"
  shows \<open>(\<forall>proc. subprocess_run h (powershell_argv (str ''New-NetFirewallRule -DisplayName "IDS_Block_'' @ ip @ str ''" -Direction Inbound -Action Block -RemoteAddress '' @ ip @ str '' -Profile Any'')) = Inr proc \<and> returncode proc \<noteq> 0 \<longrightarrow>
      (\<exists>r. fst (block_ip h ip True False backend) = Inr r \<and> \<not> ok r \<and>
           sublist (if strip (stderr proc) = [] then strip (stdout proc) else strip (stderr proc)) (message r))) \<and>
     (\<forall>proc. subprocess_run h (powershell_argv (str ''Get-NetFirewallRule -DisplayName "IDS_Block_'' @ ip @ str ''" -ErrorAction SilentlyContinue | Remove-NetFirewallRule -ErrorAction SilentlyContinue'')) = Inr proc \<and> returncode proc \<noteq> 0 \<longrightarrow>
      (\<exists>r. fst (unblock_ip h ip True False backend) = Inr r \<and> \<not> ok r \<and>
           sublist (if strip (stderr proc) = [] then strip (stdout proc) else strip (stderr proc)) (message r)))\<close>
  using assms
  by (auto simp add: block_ip_def unblock_ip_def run_powershell_def Let_def
      unblock_literal_joined py_or_def sublist_after_prefix)

theorem execution_failure_message_witness:
  \<open>fst (block_ip
     (windows_admin_host (Inr \<lparr>returncode = 1, stdout = str ''out'', stderr = str ''RuleAlreadyExists'' @ [0x0A]\<rparr>))
     (str ''203.0.113.5'') True False (str ''auto'')) =
     Inr \<lparr>ok = False,
          message = [0x274C] @ str '' Block failed: RuleAlreadyExists'',
          command = Some (str ''New-NetFirewallRule -DisplayName "IDS_Block_203.0.113.5" -Direction Inbound -Action Block -RemoteAddress 203.0.113.5 -Profile Any'')\<rparr> \<and>
   fst (unblock_ip
     (windows_admin_host (Inr \<lparr>returncode = 1, stdout = str ''out'', stderr = str ''RuleAlreadyExists'' @ [0x0A]\<rparr>))
     (str ''203.0.113.5'') True False (str ''auto'')) =
     Inr \<lparr>ok = False,
          message = [0x274C] @ str '' Unblock failed: RuleAlreadyExists'',
          command = Some (str ''Get-NetFirewallRule -DisplayName "IDS_Block_203.0.113.5" -ErrorAction SilentlyContinue | Remove-NetFirewallRule -ErrorAction SilentlyContinue'')\<rparr> \<and>
   sublist (str ''RuleAlreadyExists'') ([0x274C] @ str '' Block failed: RuleAlreadyExists'') \<and>
   sublist (str ''RuleAlreadyExists'') ([0x274C] @ str '' Unblock failed: RuleAlreadyExists'')\<close>
  using execution_failure_message [OF windows_admin_host_simps(1) windows_admin_host_simps(2),
      of "Inr \<lparr>returncode = 1, stdout = str ''out'', stderr = str ''RuleAlreadyExists'' @ [0x0A]\<rparr>"
         "str ''203.0.113.5''" "str ''auto''"]
  by (simp add: Let_def block_ip_def unblock_ip_def run_powershell_def windows_admin_host_simps
      py_or_def strip_trailing_newline RuleAlreadyExists_not_empty block_command_203
      unblock_command_203)
    (simp add: str_def sublist_code prefix_code)

theorem execution_failure_message_counterexample:
  \<open>returncode \<lparr>returncode = 1, stdout = [], stderr = str ''RuleAlreadyExists'' @ [0x0A]\<rparr> \<noteq> 0 \<and>
   fst (block_ip
     (windows_admin_host (Inr \<lparr>returncode = 1, stdout = [], stderr = str ''RuleAlreadyExists'' @ [0x0A]\<rparr>))
     (str ''203.0.113.5'') True False (str ''auto'')) =
     Inr \<lparr>ok = False,
          message = [0x274C] @ str '' Block failed: RuleAlreadyExists'',
          command = Some (str ''New-NetFirewallRule -DisplayName "IDS_Block_203.0.113.5" -Direction Inbound -Action Block -RemoteAddress 203.0.113.5 -Profile Any'')\<rparr> \<and>
   \<not> sublist (str ''RuleAlreadyExists'' @ [0x0A]) ([0x274C] @ str '' Block failed: RuleAlreadyExists'')\<close>
  by (simp add: Let_def block_ip_def run_powershell_def windows_admin_host_simps
      py_or_def strip_trailing_newline RuleAlreadyExists_not_empty block_command_203)
    (simp add: str_def sublist_code prefix_code)

text \<open>
  C1, as the code has it. The controller has no handler around the executor. An exception
  escapes \<^verbatim>\<open>block_ip\<close>, \<^verbatim>\<open>unblock_ip\<close> or \<^verbatim>\<open>list_ids_rules\<close> exactly when the
  executor is reached (REAL mode, supported platform and, for block and unblock,
  privilege) and \<^verbatim>\<open>subprocess.run\<close> raises it, as it does when the subprocess cannot be
  spawned; it is then that same exception, and no result is returned. A
  \<^verbatim>\<open>FirewallResult\<close> is returned exactly when the executor is not reached or
  \<^verbatim>\<open>subprocess.run\<close> returns a \<^verbatim>\<open>CompletedProcess\<close>, whatever its exit code. The
  counterexample is a host without \<^verbatim>\<open>powershell\<close>: \<^verbatim>\<open>FileNotFoundError\<close> escapes all
  three operations.
\<close>

theorem executor_failure_escapes:
  \<open>((fst (block_ip h ip allow_real dry_run backend) = Inl e) =
     (allow_real \<and> \<not> dry_run \<and> lower (platform_system h) = str ''windows'' \<and> is_windows_admin h \<and>
      subprocess_run h (powershell_argv (str ''New-NetFirewallRule -DisplayName "IDS_Block_'' @ ip @ str ''" -Direction Inbound -Action Block -RemoteAddress '' @ ip @ str '' -Profile Any'')) = Inl e)) \<and>
   ((fst (unblock_ip h ip allow_real dry_run backend) = Inl e) =
     (allow_real \<and> \<not> dry_run \<and> lower (platform_system h) = str ''windows'' \<and> is_windows_admin h \<and>
      subprocess_run h (powershell_argv (str ''Get-NetFirewallRule -DisplayName "IDS_Block_'' @ ip @ str ''" -ErrorAction SilentlyContinue | Remove-NetFirewallRule -ErrorAction SilentlyContinue'')) = Inl e)) \<and>
   ((fst (list_ids_rules h) = Inl e) =
     (lower (platform_system h) = str ''windows'' \<and>
      subprocess_run h (powershell_argv (str ''Get-NetFirewallRule | Where-Object {$_.DisplayName -like "IDS_Block_*"} | Select DisplayName,Enabled,Direction,Action | Format-Table -AutoSize'')) = Inl e)) \<and>
   ((\<exists>r. fst (block_ip h ip allow_real dry_run backend) = Inr r) =
     (dry_run \<or> \<not> allow_real \<or> lower (platform_system h) \<noteq> str ''windows'' \<or> \<not> is_windows_admin h \<or>
      (\<exists>proc. subprocess_run h (powershell_argv (str ''New-NetFirewallRule -DisplayName "IDS_Block_'' @ ip @ str ''" -Direction Inbound -Action Block -RemoteAddress '' @ ip @ str '' -Profile Any'')) = Inr proc))) \<and>
   ((\<exists>r. fst (unblock_ip h ip allow_real dry_run backend) = Inr r) =
     (dry_run \<or> \<not> allow_real \<or> lower (platform_system h) \<noteq> str ''windows'' \<or> \<not> is_windows_admin h \<or>
      (\<exists>proc. subprocess_run h (powershell_argv (str ''Get-NetFirewallRule -DisplayName "IDS_Block_'' @ ip @ str ''" -ErrorAction SilentlyContinue | Remove-NetFirewallRule -ErrorAction SilentlyContinue'')) = Inr proc))) \<and>
   ((\<exists>r. fst (list_ids_rules h) = Inr r) =
     (lower (platform_system h) \<noteq> str ''windows'' \<or>
      (\<exists>proc. subprocess_run h (powershell_argv (str ''Get-NetFirewallRule | Where-Object {$_.DisplayName -like "IDS_Block_*"} | Select DisplayName,Enabled,Direction,Action | Format-Table -AutoSize'')) = Inr proc)))\<close>
proof -
  have b1: \<open>(fst (block_ip h ip allow_real dry_run backend) = Inl e) =
     (allow_real \<and> \<not> dry_run \<and> lower (platform_system h) = str ''windows'' \<and> is_windows_admin h \<and>
      subprocess_run h (powershell_argv (str ''New-NetFirewallRule -DisplayName "IDS_Block_'' @ ip @ str ''" -Direction Inbound -Action Block -RemoteAddress '' @ ip @ str '' -Profile Any'')) = Inl e)\<close>
    by (auto simp add: block_ip_def run_powershell_def Let_def split: sum.splits)
  have u1: \<open>(fst (unblock_ip h ip allow_real dry_run backend) = Inl e) =
     (allow_real \<and> \<not> dry_run \<and> lower (platform_system h) = str ''windows'' \<and> is_windows_admin h \<and>
      subprocess_run h (powershell_argv (str ''Get-NetFirewallRule -DisplayName "IDS_Block_'' @ ip @ str ''" -ErrorAction SilentlyContinue | Remove-NetFirewallRule -ErrorAction SilentlyContinue'')) = Inl e)\<close>
    by (auto simp add: unblock_ip_def run_powershell_def Let_def unblock_literal_joined
        split: sum.splits)
  have l1: \<open>(fst (list_ids_rules h) = Inl e) =
     (lower (platform_system h) = str ''windows'' \<and>
      subprocess_run h (powershell_argv (str ''Get-NetFirewallRule | Where-Object {$_.DisplayName -like "IDS_Block_*"} | Select DisplayName,Enabled,Direction,Action | Format-Table -AutoSize'')) = Inl e)\<close>
    by (auto simp add: list_ids_rules_def run_powershell_def Let_def list_literal_joined
        split: sum.splits)
  have b2: \<open>(\<exists>r. fst (block_ip h ip allow_real dry_run backend) = Inr r) =
     (dry_run \<or> \<not> allow_real \<or> lower (platform_system h) \<noteq> str ''windows'' \<or> \<not> is_windows_admin h \<or>
      (\<exists>proc. subprocess_run h (powershell_argv (str ''New-NetFirewallRule -DisplayName "IDS_Block_'' @ ip @ str ''" -Direction Inbound -Action Block -RemoteAddress '' @ ip @ str '' -Profile Any'')) = Inr proc))\<close>
    by (auto simp add: block_ip_def run_powershell_def Let_def split: sum.splits)
  have u2: \<open>(\<exists>r. fst (unblock_ip h ip allow_real dry_run backend) = Inr r) =
     (dry_run \<or> \<not> allow_real \<or> lower (platform_system h) \<noteq> str ''windows'' \<or> \<not> is_windows_admin h \<or>
      (\<exists>proc. subprocess_run h (powershell_argv (str ''Get-NetFirewallRule -DisplayName "IDS_Block_'' @ ip @ str ''" -ErrorAction SilentlyContinue | Remove-NetFirewallRule -ErrorAction SilentlyContinue'')) = Inr proc))\<close>
    by (auto simp add: unblock_ip_def run_powershell_def Let_def unblock_literal_joined
        split: sum.splits)
  have l2: \<open>(\<exists>r. fst (list_ids_rules h) = Inr r) =
     (lower (platform_system h) \<noteq> str ''windows'' \<or>
      (\<exists>proc. subprocess_run h (powershell_argv (str ''Get-NetFirewallRule | Where-Object {$_.DisplayName -like "IDS_Block_*"} | Select DisplayName,Enabled,Direction,Action | Format-Table -AutoSize'')) = Inr proc))\<close>
    by (auto simp add: list_ids_rules_def run_powershell_def Let_def list_literal_joined
        split: sum.splits)
  from b1 u1 l1 b2 u2 l2 show ?thesis
    by (intro conjI)
qed

theorem executor_failure_escapes_witness:
  \<open>fst (block_ip (windows_admin_host (Inl PermissionError)) (str ''203.0.113.5'') True False (str ''auto'')) =
     Inl PermissionError \<and>
   fst (unblock_ip (windows_admin_host (Inl PermissionError)) (str ''203.0.113.5'') True False (str ''auto'')) =
     Inl PermissionError \<and>
   fst (list_ids_rules (windows_admin_host (Inl PermissionError))) = Inl PermissionError \<and>
   (\<exists>r. fst (block_ip (windows_admin_host (Inr \<lparr>returncode = 1, stdout = [], stderr = []\<rparr>))
            (str ''203.0.113.5'') True False (str ''auto'')) = Inr r) \<and>
   (\<exists>r. fst (unblock_ip (windows_admin_host (Inr \<lparr>returncode = 1, stdout = [], stderr = []\<rparr>))
            (str ''203.0.113.5'') True False (str ''auto'')) = Inr r) \<and>
   (\<exists>r. fst (list_ids_rules (windows_admin_host (Inr \<lparr>returncode = 1, stdout = [], stderr = []\<rparr>))) = Inr r)\<close>
  using executor_failure_escapes [of "windows_admin_host (Inl PermissionError)" "str ''203.0.113.5''"
      True False "str ''auto''" PermissionError]
    executor_failure_escapes [of "windows_admin_host (Inr \<lparr>returncode = 1, stdout = [], stderr = []\<rparr>)"
      "str ''203.0.113.5''" True False "str ''auto''" PermissionError]
  by (simp add: windows_admin_host_simps)

theorem executor_failure_escapes_counterexample:
  "fst (block_ip (windows_admin_host (Inl FileNotFoundError)) (str ''203.0.113.5'') True False (str ''auto'')) =
     Inl FileNotFoundError \<and>
   fst (unblock_ip (windows_admin_host (Inl FileNotFoundError)) (str ''203.0.113.5'') True False (str ''auto'')) =
     Inl FileNotFoundError \<and>
   fst (list_ids_rules (windows_admin_host (Inl FileNotFoundError))) = Inl FileNotFoundError"
  by (simp add: Let_def block_ip_def unblock_ip_def list_ids_rules_def run_powershell_def
      windows_admin_host_simps)

section \<open>The backend parameter\<close>

text \<open>
  C10. The \<^verbatim>\<open>backend\<close> parameter of \<^verbatim>\<open>block_ip\<close> and \<^verbatim>\<open>unblock_ip\<close> is never read:
  on every host, for every \<open>ip\<close>, \<open>allow_real\<close> and \<open>dry_run\<close>, two calls that differ
  only in \<open>backend\<close> have the same outcome (the same result or escaping exception, and
  the same subprocesses spawned).
\<close>

theorem backend_ignored:
  "block_ip h ip allow_real dry_run backend1 = block_ip h ip allow_real dry_run backend2 \<and>
   unblock_ip h ip allow_real dry_run backend1 = unblock_ip h ip allow_real dry_run backend2"
  by (simp add: block_ip_def unblock_ip_def)

theorem backend_ignored_witness:
  "block_ip (windows_admin_host (Inr \<lparr>returncode = 1, stdout = [], stderr = str ''E''\<rparr>))
      (str ''203.0.113.5'') True False (str ''auto'') =
   block_ip (windows_admin_host (Inr \<lparr>returncode = 1, stdout = [], stderr = str ''E''\<rparr>))
      (str ''203.0.113.5'') True False (str ''iptables'') \<and>
   unblock_ip (windows_admin_host (Inr \<lparr>returncode = 1, stdout = [], stderr = str ''E''\<rparr>))
      (str ''203.0.113.5'') True False (str ''auto'') =
   unblock_ip (windows_admin_host (Inr \<lparr>returncode = 1, stdout = [], stderr = str ''E''\<rparr>))
      (str ''203.0.113.5'') True False (str ''iptables'')"
  by (rule backend_ignored)

end
